theory Spec2Isabelle
  imports Main "HOL-Library.AList"
begin

section \<open>Go values shared by the embedded functions\<close>

text \<open>
  Go strings and byte slices are sequences of bytes: both are \<open>string\<close> here
  (a list of 8-bit characters). A Go \<open>error\<close> value that a caller only tests against
  \<open>nil\<close> is an \<open>option\<close>; a list of errors is a list of their messages.
\<close>

type_synonym go_error = string

text \<open>
  \<open>bytes.HasPrefix(s, prefix)\<close> of the Go standard library:
  \<open>len(s) >= len(prefix) && Equal(s[0:len(prefix)], prefix)\<close>.
\<close>

definition HasPrefix :: "string \<Rightarrow> string \<Rightarrow> bool" where
  "HasPrefix s pre = (length pre \<le> length s \<and> take (length pre) s = pre)"

section \<open>cmd/kube-gateway/app/proxy.go: the HTTP error-log writer\<close>

text \<open>
  \<open>proxyHTTPErrorLogWriter\<close> is an empty struct; its only effect is the call of
  \<open>klog.InfoDepth(1, string(data))\<close>. The klog sink is the list of the messages handed
  to it, oldest first, and \<open>Write\<close> returns the pair \<open>(n, err)\<close> together with the sink.
\<close>

type_synonym klog = "string list"

definition tlsHandshakeErrorPrefix :: string where
  "tlsHandshakeErrorPrefix = ''http: TLS handshake error from''"

definition Write :: "klog \<Rightarrow> string \<Rightarrow> (int \<times> go_error option) \<times> klog" where
  "Write sink data =
     (if HasPrefix data tlsHandshakeErrorPrefix then ((0, None), sink)
      else ((int (length data), None), sink @ [data]))"

section \<open>pkg/gateway/proxy/options: the upstream cluster options\<close>

text \<open>
  \<open>UpstreamClusterOptions\<close> is in \<open>src/unnamed/part_000\<close>, lines 750 to 783 (package
  \<open>options\<close>, imported by \<open>cmd/kube-gateway/app/options/proxy.go\<close>).
\<close>

record UpstreamClusterOptions =
  Path :: string

text \<open>
  \<open>Validate\<close> has a pointer receiver and starts with a test for \<open>nil\<close>, so the
  receiver is an \<open>option\<close>. \<open>fmt.Errorf\<close> with a constant format yields an error
  whose message is that constant.
\<close>

definition Validate :: "UpstreamClusterOptions option \<Rightarrow> go_error list" where
  "Validate s =
     (case s of
        None \<Rightarrow> []
      | Some opts \<Rightarrow>
          (let errs = [] in
           let errs = (if length (Path opts) = 0
                       then errs @ [''--upstream-cluster-file must be set'']
                       else errs)
           in errs))"

section \<open>crypto/tls and crypto/x509 values\<close>

text \<open>
  The values of the Go standard library that the gateway reads and writes, reduced to the
  fields its code touches. A certificate is its encoded bytes, a certificate pool the list
  of its certificates, a callback stored in a field an opaque handle; a pointer or a
  function value that may be \<open>nil\<close> is an \<open>option\<close>. \<open>ClientAuthType\<close> lists the
  constants of \<open>crypto/tls\<close> in their order.
\<close>

type_synonym Certificate = string
type_synonym CertPool = "Certificate list"

datatype callback = Callback nat

datatype ClientAuthType =
    NoClientCert
  | RequestClientCert
  | RequireAnyClientCert
  | VerifyClientCertIfGiven
  | RequireAndVerifyClientCert

record tls_Config =
  Certificates :: "Certificate list"
  ClientCAs :: "CertPool option"
  ClientAuth :: ClientAuthType
  GetCertificate :: "callback option"
  GetConfigForClient :: "callback option"

record VerifyOptions =
  Roots :: "CertPool option"

text \<open>The zero value \<open>x509.VerifyOptions{}\<close>.\<close>

definition emptyVerifyOptions :: VerifyOptions where
  "emptyVerifyOptions = \<lparr>Roots = None\<rparr>"

text \<open>
  \<open>tls.ClientHelloInfo\<close>: the server name of the hello, and the text of
  \<open>clientHello.Conn.LocalAddr().String()\<close>.
\<close>

record ClientHelloInfo =
  ServerName :: string
  LocalAddr :: string

text \<open>A call of a Go function either returns or panics (here: a nil pointer is written).\<close>

datatype 'a outcome = Panic | Return 'a

section \<open>pkg/clusters: the cluster registry as its callers see it\<close>

record EndpointInfo =
  Cluster :: string
  Endpoint :: string
  ready :: bool
  reason :: string
  message :: string

text \<open>
  Modelled from the spec: \<open>EndpointInfo.UpdateStatus\<close> of package \<open>clusters\<close>, which is
  not among the sources. The spec gives an endpoint a ready flag and the reason and
  message of the last probe; \<open>UpdateStatus(ready, reason, message)\<close> stores the three.
\<close>

definition UpdateStatus :: "EndpointInfo \<Rightarrow> bool \<Rightarrow> string \<Rightarrow> string \<Rightarrow> EndpointInfo" where
  "UpdateStatus e r rsn msg = e\<lparr>ready := r, reason := rsn, message := msg\<rparr>"

text \<open>
  The values of package \<open>proxyv1alpha1\<close> as the tests of package \<open>clusters\<close>
  (\<open>src/unnamed/part_000\<close>, lines 15 to 522) build them: a server of the cluster with its endpoint URL and its disabled flag, the
  secure-serving material, and a flow-control schema, which has a name and exactly one of
  the three configurations.
\<close>

record UpstreamClusterServer =
  ServerEndpoint :: string
  ServerDisabled :: bool

record SecureServing =
  KeyData :: string
  CertData :: string
  ClientCAData :: string

datatype FlowControlSchemaConfiguration =
    Exempt
  | MaxRequestsInflight int
  | TokenBucket int int

record FlowControlSchema =
  Name :: string
  Configuration :: FlowControlSchemaConfiguration

text \<open>
  Modelled from the spec: the flow limiter of package \<open>flowcontrol\<close>, which is not among
  the sources. The spec makes the limiter variants a tagged sum with the capabilities
  Admit, Release and Resize. A limiter object is told from every other by \<open>ident\<close>, the
  number of limiters created before it; it holds its current parameters, the number of
  its outstanding permits, and whether it has been retired.
\<close>

record FlowLimiter =
  ident :: nat
  parameters :: FlowControlSchemaConfiguration
  permits :: nat
  retired :: bool

fun sameVariant :: "FlowControlSchemaConfiguration \<Rightarrow> FlowControlSchemaConfiguration \<Rightarrow> bool" where
  "sameVariant Exempt Exempt = True"
| "sameVariant (MaxRequestsInflight a) (MaxRequestsInflight b) = True"
| "sameVariant (TokenBucket q b) (TokenBucket q' b') = True"
| "sameVariant x y = False"

definition NewFlowControl :: "nat \<Rightarrow> FlowControlSchema \<Rightarrow> FlowLimiter" where
  "NewFlowControl i schema =
     \<lparr>ident = i, parameters = Configuration schema, permits = 0, retired = False\<rparr>"

text \<open>
  Modelled from the spec: resizing in place. The spec describes it within a variant (a
  token bucket adjusts qps and burst, a max-inflight limiter its capacity): the object and
  its outstanding permits stay, the parameters change. \<open>None\<close> is a schema of another
  variant, which this limiter cannot take.
\<close>

definition Resize :: "FlowLimiter \<Rightarrow> FlowControlSchemaConfiguration \<Rightarrow> FlowLimiter option" where
  "Resize l cfg = (if sameVariant (parameters l) cfg then Some (l\<lparr>parameters := cfg\<rparr>) else None)"

text \<open>
  Modelled from the spec: the mapping \<open>schemaName \<rightarrow> FlowLimiter\<close> of a cluster, with
  the \<open>Load\<close> and \<open>Len\<close> that the tests call, and the count of the limiters created so
  far. The mapping is an association list with one entry for a name.
\<close>

record FlowControllers =
  limiters :: "(string \<times> FlowLimiter) list"
  created :: nat

definition Load :: "FlowControllers \<Rightarrow> string \<Rightarrow> FlowLimiter option" where
  "Load fc name = map_of (limiters fc) name"

definition Store :: "FlowControllers \<Rightarrow> string \<Rightarrow> FlowLimiter \<Rightarrow> FlowControllers" where
  "Store fc name l = fc\<lparr>limiters := AList.update name l (limiters fc)\<rparr>"

definition Delete :: "FlowControllers \<Rightarrow> string \<Rightarrow> FlowControllers" where
  "Delete fc name = fc\<lparr>limiters := AList.delete name (limiters fc)\<rparr>"

definition Len :: "FlowControllers \<Rightarrow> nat" where
  "Len fc = length (limiters fc)"

definition createLimiter :: "FlowControlSchema \<Rightarrow> FlowControllers \<Rightarrow> FlowControllers" where
  "createLimiter schema fc =
     Store (fc\<lparr>created := Suc (created fc)\<rparr>) (Name schema) (NewFlowControl (created fc) schema)"

text \<open>
  Modelled from the spec: \<open>Sync(oldSchemas, newSchemas)\<close>. For each name in
  \<open>new \<setminus> old\<close> a limiter is created; in \<open>new \<inter> old\<close> the limiter is resized in place
  (a schema that the limiter cannot take, or a name that has lost its limiter, gets a new
  one); in \<open>old \<setminus> new\<close> the limiter is marked as retired, and dropped once its
  outstanding permits have fallen to zero.
\<close>

definition syncSchema :: "FlowControlSchema list \<Rightarrow> FlowControlSchema \<Rightarrow> FlowControllers \<Rightarrow> FlowControllers" where
  "syncSchema old schema fc =
     (if Name schema \<in> set (map Name old)
      then (case Load fc (Name schema) of
              None \<Rightarrow> createLimiter schema fc
            | Some l \<Rightarrow>
                (case Resize l (Configuration schema) of
                   None \<Rightarrow> createLimiter schema fc
                 | Some l' \<Rightarrow> Store fc (Name schema) l'))
      else createLimiter schema fc)"

definition retire :: "string \<Rightarrow> FlowControllers \<Rightarrow> FlowControllers" where
  "retire name fc =
     (case Load fc name of
        None \<Rightarrow> fc
      | Some l \<Rightarrow>
          (if permits l = 0 then Delete fc name
           else Store fc name (l\<lparr>retired := True\<rparr>)))"

definition Sync :: "FlowControlSchema list \<Rightarrow> FlowControlSchema list \<Rightarrow> FlowControllers \<Rightarrow> FlowControllers" where
  "Sync old new fc =
     (let resized = fold (syncSchema old) new fc;
          removed = filter (\<lambda>name. name \<notin> set (map Name new)) (map Name old)
      in fold retire removed resized)"

text \<open>
  Modelled from the spec: \<open>Release\<close> returns one permit of the limiter under a name; a
  retired limiter is dropped with its last permit.
\<close>

definition Release :: "string \<Rightarrow> FlowControllers \<Rightarrow> FlowControllers" where
  "Release name fc =
     (case Load fc name of
        None \<Rightarrow> fc
      | Some l \<Rightarrow>
          (let l' = l\<lparr>permits := permits l - 1\<rparr> in
           if retired l' \<and> permits l' = 0 then Delete fc name else Store fc name l'))"

text \<open>
  Modelled from the spec: \<open>ClusterInfo\<close> of package \<open>clusters\<close>, which is not among the
  sources. The spec gives it the immutable name; the currently active TLS serving config
  and verify options behind one atomic pointer, either of them possibly nil; the mapping
  \<open>endpointURL \<rightarrow> EndpointInfo\<close>; and the mapping \<open>schemaName \<rightarrow> FlowLimiter\<close>.
  \<open>currentFlowControl\<close> is the schema list of the configuration the cluster was last
  synced to. The read API is \<open>LoadTLSConfig() \<rightarrow> (*tls.Config, ok)\<close> and
  \<open>LoadVerifyOptions() \<rightarrow> (x509.VerifyOptions, ok)\<close>; \<open>LoadTLSConfig\<close> is
  \<open>Some cfg\<close> for \<open>(cfg, true)\<close> and \<open>None\<close> for \<open>(nil, false)\<close>.
\<close>

record secureServingConfig =
  tlsConfig :: "tls_Config option"
  verifyOptions :: "VerifyOptions option"

record ClusterInfo =
  ClusterName :: string
  loadedSecureServing :: secureServingConfig
  endpoints :: "(string \<times> EndpointInfo) list"
  currentFlowControl :: "FlowControlSchema list"
  flowcontrol :: FlowControllers

definition LoadTLSConfig :: "ClusterInfo \<Rightarrow> tls_Config option" where
  "LoadTLSConfig c = tlsConfig (loadedSecureServing c)"

definition LoadVerifyOptions :: "ClusterInfo \<Rightarrow> VerifyOptions \<times> bool" where
  "LoadVerifyOptions c =
     (case verifyOptions (loadedSecureServing c) of
        None \<Rightarrow> (emptyVerifyOptions, False)
      | Some v \<Rightarrow> (v, True))"

text \<open>
  Modelled from the spec: \<open>ClusterInfo.syncFlowControlLocked\<close>, which is not among the
  sources. The tests call it with the new flow control only; the spec delegates to the
  flow controller with the old and the new schema slices.
\<close>

definition syncFlowControlLocked :: "ClusterInfo \<Rightarrow> FlowControlSchema list \<Rightarrow> ClusterInfo" where
  "syncFlowControlLocked c newObj =
     c\<lparr>flowcontrol := Sync (currentFlowControl c) newObj (flowcontrol c),
       currentFlowControl := newObj\<rparr>"

text \<open>
  Modelled from the spec: \<open>ClusterInfo.syncEndpoints\<close> and \<open>AllEndpoints\<close>, which are
  not among the sources. \<open>syncEndpoints\<close> computes the additions and the removals by the
  difference of the URL sets, starts the new \<open>EndpointInfo\<close> before it tears down the
  removed ones, and \<open>AllEndpoints\<close> enumerates the URLs. A new endpoint carries the name
  of its cluster and is not ready before its first probe. The spec describes no failure
  of \<open>syncEndpoints\<close>, and the probe loops are left out.
\<close>

definition newEndpointInfo :: "string \<Rightarrow> string \<Rightarrow> EndpointInfo" where
  "newEndpointInfo cluster url =
     \<lparr>Cluster = cluster, Endpoint = url, ready = False, reason = [], message = []\<rparr>"

definition AllEndpoints :: "ClusterInfo \<Rightarrow> string list" where
  "AllEndpoints c = map fst (endpoints c)"

definition syncEndpoints :: "ClusterInfo \<Rightarrow> UpstreamClusterServer list \<Rightarrow> ClusterInfo" where
  "syncEndpoints c servers =
     (let wanted = map ServerEndpoint (filter (\<lambda>server. \<not> ServerDisabled server) servers);
          current = map fst (endpoints c);
          additions = filter (\<lambda>url. url \<notin> set current) (remdups wanted);
          removals = filter (\<lambda>url. url \<notin> set wanted) current;
          started = endpoints c @ map (\<lambda>url. (url, newEndpointInfo (ClusterName c) url)) additions
      in c\<lparr>endpoints := filter (\<lambda>(url, e). url \<notin> set removals) started\<rparr>)"

text \<open>
  Modelled from the spec: \<open>ClusterInfo.syncSecureServingConfigLocked\<close>, which is not
  among the sources. It parses the PEM server key and certificate into the certificates,
  and the PEM client CA into a pool and verify options with that pool as roots; empty
  inputs store a nil TLS config and nil verify options; both are published together. The
  two parsers belong to libraries and are parameters. A parse that fails leaves the
  previous config in place, as the spec says of a failed reconfiguration.
\<close>

type_synonym X509KeyPair = "string \<Rightarrow> string \<Rightarrow> go_error + Certificate"
type_synonym NewPoolFromBytes = "string \<Rightarrow> go_error + CertPool"

definition syncSecureServingConfigLocked ::
  "X509KeyPair \<Rightarrow> NewPoolFromBytes \<Rightarrow> ClusterInfo \<Rightarrow> SecureServing \<Rightarrow> go_error + ClusterInfo" where
  "syncSecureServingConfigLocked keyPair poolFromBytes c secureServing =
     (if length (KeyData secureServing) = 0 \<and> length (CertData secureServing) = 0
         \<and> length (ClientCAData secureServing) = 0
      then Inr (c\<lparr>loadedSecureServing := \<lparr>tlsConfig = None, verifyOptions = None\<rparr>\<rparr>)
      else
        (case (if length (ClientCAData secureServing) > 0
               then (case poolFromBytes (ClientCAData secureServing) of
                       Inl err \<Rightarrow> Inl err
                     | Inr pool \<Rightarrow> Inr (Some pool))
               else Inr None) of
           Inl err \<Rightarrow> Inl err
         | Inr clientCAs \<Rightarrow>
             (case (if length (KeyData secureServing) > 0 \<or> length (CertData secureServing) > 0
                    then (case keyPair (CertData secureServing) (KeyData secureServing) of
                            Inl err \<Rightarrow> Inl err
                          | Inr cert \<Rightarrow> Inr [cert])
                    else Inr []) of
                Inl err \<Rightarrow> Inl err
              | Inr certificates \<Rightarrow>
                  Inr (c\<lparr>loadedSecureServing :=
                         \<lparr>tlsConfig = Some \<lparr>Certificates = certificates, ClientCAs = clientCAs,
                                            ClientAuth = NoClientCert, GetCertificate = None,
                                            GetConfigForClient = None\<rparr>,
                          verifyOptions = (case clientCAs of
                                             None \<Rightarrow> None
                                           | Some pool \<Rightarrow> Some \<lparr>Roots = Some pool\<rparr>)\<rparr>\<rparr>))))"

text \<open>
  What a cluster's flow control looks like between two syncs: the schemas it was last
  synced to have distinct names, each of them has its limiter, with the parameters of the
  schema, and every limiter in the mapping was created before now.
\<close>

definition identsBelow :: "FlowControllers \<Rightarrow> bool" where
  "identsBelow fc = (\<forall>entry \<in> set (limiters fc). ident (snd entry) < created fc)"

definition flowControlSynced :: "ClusterInfo \<Rightarrow> bool" where
  "flowControlSynced c =
     (distinct (map Name (currentFlowControl c))
      \<and> (\<forall>schema \<in> set (currentFlowControl c).
            case Load (flowcontrol c) (Name schema) of
              None \<Rightarrow> False
            | Some l \<Rightarrow> parameters l = Configuration schema)
      \<and> identsBelow (flowcontrol c))"

text \<open>
  \<open>clusters.Manager\<close> is used through its method \<open>Get(host) \<rightarrow> (*ClusterInfo, ok)\<close>
  only, whose code is not among the sources: a manager is that lookup.
\<close>

type_synonym Manager = "string \<Rightarrow> ClusterInfo option"

section \<open>pkg/gateway/controllers: the TLS handshake callback\<close>

text \<open>
  \<open>UpstreamClusterManager\<close> is in \<open>src/unnamed/part_000\<close>, lines 523 to 682 (package
  \<open>controllers\<close>). The wrapped callback \<open>getConfigFunc\<close> returns a pointer to a config and an error.
  \<open>net.SplitHostPort\<close> belongs to the Go standard library and is a parameter: it returns
  an error or the host and the port. The two \<open>klog\<close> calls only write log lines.
\<close>

type_synonym GetConfigForClientFunc =
  "ClientHelloInfo \<Rightarrow> tls_Config option \<times> go_error option"

type_synonym SplitHostPort = "string \<Rightarrow> go_error + string \<times> string"

text \<open>
  Lines 591 to 601: the hostname of the handshake is the server name of the hello, or the
  host of the local address when the server name is empty; \<open>None\<close> is the early return
  on a local address that does not parse.
\<close>

definition handshakeHostname :: "SplitHostPort \<Rightarrow> ClientHelloInfo \<Rightarrow> string option" where
  "handshakeHostname splitHostPort clientHello =
     (let hostname = ServerName clientHello in
      if length hostname = 0
      then (case splitHostPort (LocalAddr clientHello) of
              Inl err \<Rightarrow> None
            | Inr (host, port) \<Rightarrow> Some host)
      else Some hostname)"

text \<open>
  Lines 615 to 630: \<open>baseTLSConfig.Clone()\<close> of a nil pointer is nil, and the first field
  written through a nil copy panics. Each of the two overlays has its own guard.
\<close>

definition overlayClientCAs :: "tls_Config \<Rightarrow> tls_Config option \<Rightarrow> tls_Config option outcome" where
  "overlayClientCAs cfg tlsConfigCopy =
     (if ClientCAs cfg \<noteq> None
      then (case tlsConfigCopy of
              None \<Rightarrow> Panic
            | Some c \<Rightarrow> Return (Some (c\<lparr>ClientAuth := RequestClientCert, ClientCAs := ClientCAs cfg\<rparr>)))
      else Return tlsConfigCopy)"

definition overlayCertificates :: "tls_Config \<Rightarrow> tls_Config option \<Rightarrow> tls_Config option outcome" where
  "overlayCertificates cfg tlsConfigCopy =
     (if length (Certificates cfg) > 0
      then (case tlsConfigCopy of
              None \<Rightarrow> Panic
            | Some c \<Rightarrow> Return (Some (c\<lparr>Certificates := Certificates cfg,
                                          GetCertificate := None,
                                          GetConfigForClient := None\<rparr>)))
      else Return tlsConfigCopy)"

text \<open>
  Lines 605 to 630: the registry lookup on the hostname and the config that is returned.
\<close>

definition clusterTLSConfig ::
  "Manager \<Rightarrow> tls_Config option \<Rightarrow> string \<Rightarrow> (tls_Config option \<times> go_error option) outcome" where
  "clusterTLSConfig m baseTLSConfig hostname =
     (case m hostname of
        None \<Rightarrow> Return (baseTLSConfig, None)
      | Some cluster \<Rightarrow>
          (case LoadTLSConfig cluster of
             None \<Rightarrow> Return (baseTLSConfig, None)
           | Some cfg \<Rightarrow>
               (case overlayClientCAs cfg baseTLSConfig of
                  Panic \<Rightarrow> Panic
                | Return tlsConfigCopy \<Rightarrow>
                    (case overlayCertificates cfg tlsConfigCopy of
                       Panic \<Rightarrow> Panic
                     | Return tlsConfigCopy' \<Rightarrow> Return (tlsConfigCopy', None)))))"

definition WrapGetConfigForClient ::
  "Manager \<Rightarrow> SplitHostPort \<Rightarrow> GetConfigForClientFunc \<Rightarrow> ClientHelloInfo
     \<Rightarrow> (tls_Config option \<times> go_error option) outcome" where
  "WrapGetConfigForClient m splitHostPort getConfigFunc clientHello =
     (case getConfigFunc clientHello of
        (baseTLSConfig, Some err) \<Rightarrow> Return (baseTLSConfig, Some err)
      | (baseTLSConfig, None) \<Rightarrow>
          (case handshakeHostname splitHostPort clientHello of
             None \<Rightarrow> Return (baseTLSConfig, None)
           | Some hostname \<Rightarrow> clusterTLSConfig m baseTLSConfig hostname))"

text \<open>
  Modelled from the spec: \<open>gatewaynet.HostWithoutPort\<close>, which is not among the sources.
  The spec has the lookups strip any \<open>:port\<close> suffix: a host with a colon loses its last
  colon and what follows it, a host without a colon stays as it is.
\<close>

definition HostWithoutPort :: "string \<Rightarrow> string" where
  "HostWithoutPort hostport =
     (if CHR '':'' \<in> set hostport
      then rev (tl (dropWhile (\<lambda>c. c \<noteq> CHR '':'') (rev hostport)))
      else hostport)"

text \<open>Lines 634 to 642.\<close>

definition SNIVerifyOptions :: "Manager \<Rightarrow> string \<Rightarrow> VerifyOptions \<times> bool" where
  "SNIVerifyOptions m host =
     (let hostname = HostWithoutPort host;
          empty = emptyVerifyOptions
      in case m hostname of
           None \<Rightarrow> (empty, False)
         | Some cluster \<Rightarrow> LoadVerifyOptions cluster)"

section \<open>pkg/gateway/controllers: the health check\<close>

text \<open>
  \<open>GatewayHealthCheck\<close>, lines 644 to 682 of the same file. Of the error of the request
  the code reads \<open>os.IsTimeout(err)\<close>, the type switch on \<open>errors.APIStatus\<close> (with the
  reason and message of the status) and \<open>err.Error()\<close>.
\<close>

record probeError =
  IsTimeout :: bool
  APIStatus :: "(string \<times> string) option"
  ErrorText :: string

text \<open>
  The request to \<open>/readyz\<close> is the environment's: either it fails before a response
  arrives, or the server responds with a status code. With the response comes the reason
  and the message of the status that the client library derives from it when it reports
  the response as an error.
\<close>

datatype probeOutcome = RequestFailed probeError | Responded int "string \<times> string"

text \<open>
  \<open>rest.Result\<close> of the client library \<open>client-go\<close>, with what the health check reads of
  it: \<open>result.Error()\<close> and \<open>result.StatusCode(&statusCode)\<close>.
\<close>

record Result =
  resultError :: "probeError option"
  resultStatusCode :: int

definition StatusSwitchingProtocols :: int where
  "StatusSwitchingProtocols = 101"

definition StatusOK :: int where
  "StatusOK = 200"

definition StatusPartialContent :: int where
  "StatusPartialContent = 206"

text \<open>
  \<open>Request.Do\<close> of \<open>client-go\<close>, which belongs to a library: a response whose status is
  neither 101 nor within 200 to 206 is reported as an error. That error is a
  \<open>*errors.StatusError\<close>: it is an \<open>errors.APIStatus\<close>, it is no timeout for
  \<open>os.IsTimeout\<close>, and its text is the message of its status. Every other response is
  reported without an error, with its status code.
\<close>

definition Do :: "probeOutcome \<Rightarrow> Result" where
  "Do outcome =
     (case outcome of
        RequestFailed requestError \<Rightarrow> \<lparr>resultError = Some requestError, resultStatusCode = 0\<rparr>
      | Responded code status \<Rightarrow>
          (if code = StatusSwitchingProtocols
           then \<lparr>resultError = None, resultStatusCode = code\<rparr>
           else if code < StatusOK \<or> code > StatusPartialContent
           then \<lparr>resultError = Some \<lparr>IsTimeout = False, APIStatus = Some status,
                                      ErrorText = snd status\<rparr>,
                 resultStatusCode = code\<rparr>
           else \<lparr>resultError = None, resultStatusCode = code\<rparr>))"

text \<open>\<open>fmt.Sprintf\<close> with \<open>%v\<close> prints a Go \<open>int\<close> in decimal.\<close>

fun natDigits :: "nat \<Rightarrow> string" where
  "natDigits n =
     (if n < 10 then [''0123456789'' ! n]
      else natDigits (n div 10) @ [''0123456789'' ! (n mod 10)])"

declare natDigits.simps [simp del]

definition Itoa :: "int \<Rightarrow> string" where
  "Itoa i = (if i < 0 then CHR ''-'' # natDigits (nat (- i)) else natDigits (nat i))"

definition GatewayHealthCheck :: "probeOutcome \<Rightarrow> EndpointInfo \<Rightarrow> bool \<times> EndpointInfo" where
  "GatewayHealthCheck outcome e =
     (let done = False;
          result = Do outcome
      in case resultError result of
           Some err \<Rightarrow>
             (if IsTimeout err
              then (done, UpdateStatus e False ''Timeout'' (ErrorText err))
              else (case APIStatus err of
                      Some (statusReason, statusMessage) \<Rightarrow>
                        (done, UpdateStatus e False statusReason statusMessage)
                    | None \<Rightarrow> (done, UpdateStatus e False ''Failure'' (ErrorText err))))
         | None \<Rightarrow>
             (let statusCode = resultStatusCode result in
              if statusCode = StatusOK
              then (done, UpdateStatus e True [] [])
              else (done, UpdateStatus e False ''NotReady''
                      (''request '' @ Endpoint e @ ''/readyz, got response code is ''
                         @ Itoa statusCode))))"

section \<open>Concrete inputs\<close>

text \<open>
  The inputs at which the theorems below are instantiated: the cluster of the repository's
  tests, \<open>testing.cluster\<close>, a base config of the gateway, and stand-ins for the
  parameters.
\<close>

definition exampleBase :: tls_Config where
  "exampleBase = \<lparr>Certificates = [''gateway-cert''], ClientCAs = None,
      ClientAuth = NoClientCert, GetCertificate = Some (Callback 1),
      GetConfigForClient = Some (Callback 2)\<rparr>"

definition exampleCluster :: "tls_Config option \<Rightarrow> VerifyOptions option \<Rightarrow> ClusterInfo" where
  "exampleCluster cfg vo = \<lparr>ClusterName = ''testing.cluster'',
      loadedSecureServing = \<lparr>tlsConfig = cfg, verifyOptions = vo\<rparr>,
      endpoints = [(''https://127.0.0.1:443'',
                    newEndpointInfo ''testing.cluster'' ''https://127.0.0.1:443'')],
      currentFlowControl = [],
      flowcontrol = \<lparr>limiters = [], created = 0\<rparr>\<rparr>"

definition exampleManager :: "ClusterInfo \<Rightarrow> Manager" where
  "exampleManager c = (\<lambda>host. if host = ''testing.cluster'' then Some c else None)"

definition exampleSplitHostPort :: SplitHostPort where
  "exampleSplitHostPort = (\<lambda>addr.
      if addr = ''testing.cluster:6443'' then Inr (''testing.cluster'', ''6443'')
      else if addr = ''10.0.0.1:6443'' then Inr (''10.0.0.1'', ''6443'')
      else Inl ''missing port in address'')"

definition exampleCertsOnly :: tls_Config where
  "exampleCertsOnly = \<lparr>Certificates = [''cluster-cert''], ClientCAs = None,
      ClientAuth = NoClientCert, GetCertificate = None, GetConfigForClient = None\<rparr>"

definition exampleCAOnly :: tls_Config where
  "exampleCAOnly = \<lparr>Certificates = [], ClientCAs = Some [''cluster-ca''],
      ClientAuth = NoClientCert, GetCertificate = None, GetConfigForClient = None\<rparr>"

definition exampleGetConfig :: GetConfigForClientFunc where
  "exampleGetConfig = (\<lambda>clientHello. (Some exampleBase, None))"

definition exampleVerifyOptions :: VerifyOptions where
  "exampleVerifyOptions = \<lparr>Roots = Some [''cluster-ca'']\<rparr>"

definition exampleEndpoint :: EndpointInfo where
  "exampleEndpoint = \<lparr>Cluster = ''testing.cluster'', Endpoint = ''https://127.0.0.1:443'',
      ready = True, reason = [], message = []\<rparr>"

text \<open>
  The flow-control schemas of \<open>TestClusterInfo_syncFlowControlLocked\<close>, one more schema,
  a cluster that has been synced to the first three schemas and has permits outstanding,
  and stand-ins for the two parsers.
\<close>

definition exempt :: FlowControlSchema where
  "exempt = \<lparr>Name = ''exempt'', Configuration = Exempt\<rparr>"

definition maxInflight10 :: FlowControlSchema where
  "maxInflight10 = \<lparr>Name = ''max-inflight'', Configuration = MaxRequestsInflight 10\<rparr>"

definition tokenBucket10 :: FlowControlSchema where
  "tokenBucket10 = \<lparr>Name = ''tokenbucket'', Configuration = TokenBucket 10 20\<rparr>"

definition maxInflight20 :: FlowControlSchema where
  "maxInflight20 = \<lparr>Name = ''max-inflight'', Configuration = MaxRequestsInflight 20\<rparr>"

definition tokenBucket20 :: FlowControlSchema where
  "tokenBucket20 = \<lparr>Name = ''tokenbucket'', Configuration = TokenBucket 20 40\<rparr>"

definition exampleExtra :: FlowControlSchema where
  "exampleExtra = \<lparr>Name = ''extra'', Configuration = MaxRequestsInflight 5\<rparr>"

definition exampleSynced :: ClusterInfo where
  "exampleSynced = (exampleCluster None None)
     \<lparr>currentFlowControl := [exempt, maxInflight10, tokenBucket10],
      flowcontrol :=
        \<lparr>limiters =
           [(''exempt'', \<lparr>ident = 0, parameters = Exempt, permits = 2, retired = False\<rparr>),
            (''max-inflight'',
             \<lparr>ident = 1, parameters = MaxRequestsInflight 10, permits = 3, retired = False\<rparr>),
            (''tokenbucket'',
             \<lparr>ident = 2, parameters = TokenBucket 10 20, permits = 0, retired = False\<rparr>)],
         created = 3\<rparr>\<rparr>"

definition exampleKeyPair :: X509KeyPair where
  "exampleKeyPair = (\<lambda>certPEM keyPEM.
      if certPEM = ''server-cert-pem'' \<and> keyPEM = ''server-key-pem'' then Inr ''server-cert''
      else Inl ''tls: failed to find any PEM data in certificate input'')"

definition examplePoolFromBytes :: NewPoolFromBytes where
  "examplePoolFromBytes = (\<lambda>pem.
      if pem = ''client-ca-pem'' then Inr [''client-ca'']
      else Inl ''data does not contain any valid RSA or ECDSA certificates'')"

section \<open>Properties of the error-log writer\<close>

text \<open>
  Claim C10. For every byte slice written to the proxy's HTTP error-log writer: when the
  bytes begin with \<open>http: TLS handshake error from\<close> nothing is logged and \<open>Write\<close>
  returns \<open>(0, nil)\<close>; for every other input the message is logged and \<open>Write\<close>
  returns \<open>(len(data), nil)\<close>; the returned error is \<open>nil\<close> on every input.
\<close>

theorem Write_filters_handshake_errors:
  "Write sink data =
     (if HasPrefix data ''http: TLS handshake error from''
      then ((0, None), sink)
      else ((int (length data), None), sink @ [data]))
   \<and> snd (fst (Write sink data)) = None"
  by (simp add: Write_def tlsHandshakeErrorPrefix_def)

theorem Write_filters_handshake_errors_witness:
  "Write [''started''] ''http: TLS handshake error from 10.0.0.1:52044: EOF''
     = ((0, None), [''started''])
   \<and> Write [''started''] ''http: Accept error: too many open files''
     = ((39, None), [''started'', ''http: Accept error: too many open files''])"
proof -
  have p: "HasPrefix ''http: TLS handshake error from 10.0.0.1:52044: EOF''
             ''http: TLS handshake error from''"
    and q: "\<not> HasPrefix ''http: Accept error: too many open files''
             ''http: TLS handshake error from''"
    by (simp_all add: HasPrefix_def)
  have dropped: "Write [''started''] ''http: TLS handshake error from 10.0.0.1:52044: EOF''
     = ((0, None), [''started''])"
    using Write_filters_handshake_errors
      [of "[''started'']" "''http: TLS handshake error from 10.0.0.1:52044: EOF''"] p
    by simp
  have logged: "Write [''started''] ''http: Accept error: too many open files''
     = ((39, None), [''started'', ''http: Accept error: too many open files''])"
    using Write_filters_handshake_errors
      [of "[''started'']" "''http: Accept error: too many open files''"] q
    by simp
  from dropped logged show ?thesis by blast
qed

section \<open>Properties of the option validation\<close>

text \<open>
  Claim C8. \<open>Validate\<close> on an options value returns a non-empty error list exactly when
  the upstream-cluster-file path is empty: the empty path yields the single
  configuration error, and a non-empty path yields no error.
\<close>

theorem Validate_error_iff_path_empty:
  "(Validate (Some opts) \<noteq> []) = (Path opts = [])
   \<and> Validate (Some opts) =
       (if Path opts = [] then [''--upstream-cluster-file must be set''] else [])"
  by (simp add: Validate_def)

theorem Validate_error_iff_path_empty_witness:
  "Validate (Some \<lparr>Path = []\<rparr>) = [''--upstream-cluster-file must be set'']
   \<and> Validate (Some \<lparr>Path = ''/etc/kube-gateway/upstream.yaml''\<rparr>) = []"
  using Validate_error_iff_path_empty [of "\<lparr>Path = []\<rparr>"]
    Validate_error_iff_path_empty [of "\<lparr>Path = ''/etc/kube-gateway/upstream.yaml''\<rparr>"]
  by simp

lemma Validate_nil_receiver: "Validate None = []"
  by (simp add: Validate_def)

section \<open>Properties of the health check\<close>

text \<open>
  What the health check gets from the client library: a response with status 101 or 200
  to 206 without an error, every other response as an error that is a typed API status.
\<close>

lemma Do_without_error:
  "code = 101 \<or> (200 \<le> code \<and> code \<le> 206) \<Longrightarrow>
   Do (Responded code status) = \<lparr>resultError = None, resultStatusCode = code\<rparr>"
  by (auto simp add: Do_def StatusSwitchingProtocols_def StatusOK_def StatusPartialContent_def)

lemma Do_status_error:
  "code \<noteq> 101 \<Longrightarrow> code < 200 \<or> 206 < code \<Longrightarrow>
   Do (Responded code status)
     = \<lparr>resultError = Some \<lparr>IsTimeout = False, APIStatus = Some status, ErrorText = snd status\<rparr>,
        resultStatusCode = code\<rparr>"
  by (auto simp add: Do_def StatusSwitchingProtocols_def StatusOK_def StatusPartialContent_def)

text \<open>
  \<open>Itoa\<close> writes the decimal digits: read back digit by digit, they give the number.
\<close>

lemma digit_of_nth:
  "k < 10 \<Longrightarrow> of_char (''0123456789'' ! k) - (48::nat) = k"
proof -
  assume "k < 10"
  then consider "k = 0" | "k = 1" | "k = 2" | "k = 3" | "k = 4" | "k = 5" | "k = 6"
    | "k = 7" | "k = 8" | "k = 9"
    by atomize_elim arith
  then show ?thesis by cases simp_all
qed

lemma natDigits_value:
  "foldl (\<lambda>acc c. 10 * acc + (of_char c - 48)) (0::nat) (natDigits n) = n"
proof (induction n rule: natDigits.induct)
  case (1 n)
  show ?case
  proof (cases "n < 10")
    case True
    then show ?thesis
      by (subst natDigits.simps) (simp add: digit_of_nth)
  next
    case False
    have m: "n mod 10 < 10" by simp
    from False "1.IH" show ?thesis
      by (subst natDigits.simps) (simp add: digit_of_nth [OF m])
  qed
qed

text \<open>
  Claim C2, as stated: a response with a status other than 200 marks the endpoint not ready
  with reason \<open>NotReady\<close> and a message that lists the status code. This fails for a
  response with status 500: the client library reports it as an error that is a typed API
  status, and the endpoint carries the reason and the message of that status.
\<close>

theorem GatewayHealthCheck_not_ready_counterexample:
  "GatewayHealthCheck
       (Responded 500 (''InternalError'', ''an error on the server has prevented the request from succeeding''))
       \<lparr>Cluster = ''testing.cluster'', Endpoint = ''https://127.0.0.1:443'', ready = True,
        reason = [], message = []\<rparr>
     = (False, \<lparr>Cluster = ''testing.cluster'', Endpoint = ''https://127.0.0.1:443'', ready = False,
                reason = ''InternalError'',
                message = ''an error on the server has prevented the request from succeeding''\<rparr>)
   \<and> ''InternalError'' \<noteq> ''NotReady''"
  by (simp add: GatewayHealthCheck_def Do_def UpdateStatus_def StatusSwitchingProtocols_def
        StatusOK_def StatusPartialContent_def)

text \<open>
  Claim C2, amended. For every execution of \<open>GatewayHealthCheck\<close> on an endpoint: a response
  with status 200 marks the endpoint ready with empty reason and message; a request that
  fails with a timeout marks it not ready with reason \<open>Timeout\<close>; one that fails with an
  error that is no timeout and is a typed API status marks it not ready with the reason
  and message of that status; one that fails with any other error marks it not ready with
  reason \<open>Failure\<close>; a response that the client library reports without an error and
  whose status is not 200, that is status 101 or 201 to 206, marks it not ready with
  reason \<open>NotReady\<close> and a message that lists the status code in decimal; and a response
  with any other status is reported as an error that is a typed API status, and marks the
  endpoint not ready with the reason and message of that status.
\<close>

theorem GatewayHealthCheck_classifies_probe:
  "GatewayHealthCheck (Responded 200 status) e
     = (False, e\<lparr>ready := True, reason := [], message := []\<rparr>)
   \<and> (IsTimeout err \<longrightarrow>
        GatewayHealthCheck (RequestFailed err) e
          = (False, e\<lparr>ready := False, reason := ''Timeout'', message := ErrorText err\<rparr>))
   \<and> (\<not> IsTimeout err \<and> APIStatus err = Some (statusReason, statusMessage) \<longrightarrow>
        GatewayHealthCheck (RequestFailed err) e
          = (False, e\<lparr>ready := False, reason := statusReason, message := statusMessage\<rparr>))
   \<and> (\<not> IsTimeout err \<and> APIStatus err = None \<longrightarrow>
        GatewayHealthCheck (RequestFailed err) e
          = (False, e\<lparr>ready := False, reason := ''Failure'', message := ErrorText err\<rparr>))
   \<and> (statusCode = 101 \<or> (201 \<le> statusCode \<and> statusCode \<le> 206) \<longrightarrow>
        GatewayHealthCheck (Responded statusCode status) e
          = (False, e\<lparr>ready := False, reason := ''NotReady'',
               message := ''request '' @ Endpoint e @ ''/readyz, got response code is ''
                            @ Itoa statusCode\<rparr>))
   \<and> map Itoa [101, 201, 202, 203, 204, 205, 206]
        = [''101'', ''201'', ''202'', ''203'', ''204'', ''205'', ''206'']
   \<and> (statusCode \<noteq> 101 \<and> (statusCode < 200 \<or> 206 < statusCode) \<longrightarrow>
        GatewayHealthCheck (Responded statusCode (statusReason, statusMessage)) e
          = (False, e\<lparr>ready := False, reason := statusReason, message := statusMessage\<rparr>))"
proof -
  have digits: "map Itoa [101, 201, 202, 203, 204, 205, 206]
        = [''101'', ''201'', ''202'', ''203'', ''204'', ''205'', ''206'']"
    by code_simp
  have ok: "GatewayHealthCheck (Responded 200 status) e
     = (False, e\<lparr>ready := True, reason := [], message := []\<rparr>)"
    by (simp add: GatewayHealthCheck_def Do_without_error UpdateStatus_def StatusOK_def)
  have failed: "GatewayHealthCheck (RequestFailed err) e =
      (if IsTimeout err
       then (False, e\<lparr>ready := False, reason := ''Timeout'', message := ErrorText err\<rparr>)
       else case APIStatus err of
              Some (r, m) \<Rightarrow> (False, e\<lparr>ready := False, reason := r, message := m\<rparr>)
            | None \<Rightarrow> (False, e\<lparr>ready := False, reason := ''Failure'', message := ErrorText err\<rparr>))"
    by (simp add: GatewayHealthCheck_def Do_def UpdateStatus_def split: option.splits)
  have not_ready: "GatewayHealthCheck (Responded statusCode status) e
          = (False, e\<lparr>ready := False, reason := ''NotReady'',
               message := ''request '' @ Endpoint e @ ''/readyz, got response code is ''
                            @ Itoa statusCode\<rparr>)"
    if "statusCode = 101 \<or> (201 \<le> statusCode \<and> statusCode \<le> 206)"
  proof -
    from that have "statusCode = 101 \<or> (200 \<le> statusCode \<and> statusCode \<le> 206)"
      and "statusCode \<noteq> 200"
      by auto
    then show ?thesis
      by (simp add: GatewayHealthCheck_def Do_without_error UpdateStatus_def StatusOK_def)
  qed
  have status_error:
    "GatewayHealthCheck (Responded statusCode (statusReason, statusMessage)) e
          = (False, e\<lparr>ready := False, reason := statusReason, message := statusMessage\<rparr>)"
    if "statusCode \<noteq> 101 \<and> (statusCode < 200 \<or> 206 < statusCode)"
    using that by (simp add: GatewayHealthCheck_def Do_status_error UpdateStatus_def)
  from digits ok failed not_ready status_error show ?thesis
    by simp
qed

theorem GatewayHealthCheck_classifies_probe_witness:
  "GatewayHealthCheck
       (RequestFailed \<lparr>IsTimeout = True, APIStatus = None, ErrorText = ''context deadline exceeded''\<rparr>)
       exampleEndpoint
     = (False, exampleEndpoint\<lparr>ready := False, reason := ''Timeout'',
                 message := ''context deadline exceeded''\<rparr>)
   \<and> GatewayHealthCheck
       (RequestFailed \<lparr>IsTimeout = False, APIStatus = Some (''Forbidden'', ''readyz is forbidden''),
                      ErrorText = ''readyz is forbidden''\<rparr>)
       exampleEndpoint
     = (False, exampleEndpoint\<lparr>ready := False, reason := ''Forbidden'',
                 message := ''readyz is forbidden''\<rparr>)
   \<and> GatewayHealthCheck
       (RequestFailed \<lparr>IsTimeout = False, APIStatus = None, ErrorText = ''connection refused''\<rparr>)
       exampleEndpoint
     = (False, exampleEndpoint\<lparr>ready := False, reason := ''Failure'',
                 message := ''connection refused''\<rparr>)
   \<and> GatewayHealthCheck (Responded 204 (''Unknown'', [])) exampleEndpoint
     = (False, exampleEndpoint\<lparr>ready := False, reason := ''NotReady'',
                 message := ''request https://127.0.0.1:443/readyz, got response code is 204''\<rparr>)
   \<and> GatewayHealthCheck (Responded 503 (''ServiceUnavailable'', ''the server is currently unable to handle the request''))
       exampleEndpoint
     = (False, exampleEndpoint\<lparr>ready := False, reason := ''ServiceUnavailable'',
                 message := ''the server is currently unable to handle the request''\<rparr>)"
proof -
  have ep: "Endpoint exampleEndpoint = ''https://127.0.0.1:443''"
    by (simp add: exampleEndpoint_def)
  have timeout:
    "GatewayHealthCheck
       (RequestFailed \<lparr>IsTimeout = True, APIStatus = None, ErrorText = ''context deadline exceeded''\<rparr>)
       exampleEndpoint
     = (False, exampleEndpoint\<lparr>ready := False, reason := ''Timeout'',
                 message := ''context deadline exceeded''\<rparr>)"
    using GatewayHealthCheck_classifies_probe
      [where err = "\<lparr>IsTimeout = True, APIStatus = None, ErrorText = ''context deadline exceeded''\<rparr>"
         and e = exampleEndpoint, THEN conjunct2, THEN conjunct1]
    by simp
  have api_status:
    "GatewayHealthCheck
       (RequestFailed \<lparr>IsTimeout = False, APIStatus = Some (''Forbidden'', ''readyz is forbidden''),
                      ErrorText = ''readyz is forbidden''\<rparr>)
       exampleEndpoint
     = (False, exampleEndpoint\<lparr>ready := False, reason := ''Forbidden'',
                 message := ''readyz is forbidden''\<rparr>)"
    using GatewayHealthCheck_classifies_probe
      [where err = "\<lparr>IsTimeout = False, APIStatus = Some (''Forbidden'', ''readyz is forbidden''),
                      ErrorText = ''readyz is forbidden''\<rparr>"
         and statusReason = "''Forbidden''" and statusMessage = "''readyz is forbidden''"
         and e = exampleEndpoint, THEN conjunct2, THEN conjunct2, THEN conjunct1]
    by simp
  have failure:
    "GatewayHealthCheck
       (RequestFailed \<lparr>IsTimeout = False, APIStatus = None, ErrorText = ''connection refused''\<rparr>)
       exampleEndpoint
     = (False, exampleEndpoint\<lparr>ready := False, reason := ''Failure'',
                 message := ''connection refused''\<rparr>)"
    using GatewayHealthCheck_classifies_probe
      [where err = "\<lparr>IsTimeout = False, APIStatus = None, ErrorText = ''connection refused''\<rparr>"
         and e = exampleEndpoint, THEN conjunct2, THEN conjunct2, THEN conjunct2, THEN conjunct1]
    by simp
  have not_ready:
    "GatewayHealthCheck (Responded 204 (''Unknown'', [])) exampleEndpoint
     = (False, exampleEndpoint\<lparr>ready := False, reason := ''NotReady'',
                 message := ''request https://127.0.0.1:443/readyz, got response code is 204''\<rparr>)"
    using GatewayHealthCheck_classifies_probe
      [where statusCode = 204 and status = "(''Unknown'', [])" and e = exampleEndpoint,
       THEN conjunct2, THEN conjunct2, THEN conjunct2, THEN conjunct2, THEN conjunct1]
      GatewayHealthCheck_classifies_probe
      [where e = exampleEndpoint,
       THEN conjunct2, THEN conjunct2, THEN conjunct2, THEN conjunct2, THEN conjunct2,
       THEN conjunct1]
    by (simp add: ep)
  have status_error:
    "GatewayHealthCheck (Responded 503 (''ServiceUnavailable'', ''the server is currently unable to handle the request''))
       exampleEndpoint
     = (False, exampleEndpoint\<lparr>ready := False, reason := ''ServiceUnavailable'',
                 message := ''the server is currently unable to handle the request''\<rparr>)"
    using GatewayHealthCheck_classifies_probe
      [where statusCode = 503 and statusReason = "''ServiceUnavailable''"
         and statusMessage = "''the server is currently unable to handle the request''"
         and e = exampleEndpoint,
       THEN conjunct2, THEN conjunct2, THEN conjunct2, THEN conjunct2, THEN conjunct2,
       THEN conjunct2]
    by simp
  from timeout api_status failure not_ready status_error show ?thesis
    by blast
qed

section \<open>Properties of the TLS handshake callback\<close>

lemma clusterTLSConfig_miss:
  "m hostname = None \<Longrightarrow> clusterTLSConfig m base hostname = Return (base, None)"
  by (simp add: clusterTLSConfig_def)


lemma clusterTLSConfig_hit:
  "m hostname = Some c \<Longrightarrow> LoadTLSConfig c = Some cfg \<Longrightarrow>
   clusterTLSConfig m (Some base) hostname =
     Return (Some (base\<lparr>
        Certificates := (if Certificates cfg \<noteq> [] then Certificates cfg else Certificates base),
        ClientCAs := (if ClientCAs cfg \<noteq> None then ClientCAs cfg else ClientCAs base),
        ClientAuth := (if ClientCAs cfg \<noteq> None then RequestClientCert else ClientAuth base),
        GetCertificate := (if Certificates cfg \<noteq> [] then None else GetCertificate base),
        GetConfigForClient := (if Certificates cfg \<noteq> [] then None else GetConfigForClient base)\<rparr>), None)"
  by (simp add: clusterTLSConfig_def overlayClientCAs_def overlayCertificates_def)

text \<open>An error of the base callback is returned as it is, with the base callback's config.\<close>

lemma WrapGetConfigForClient_base_error:
  "getConfigFunc clientHello = (baseTLSConfig, Some err) \<Longrightarrow>
   WrapGetConfigForClient m splitHostPort getConfigFunc clientHello
     = Return (baseTLSConfig, Some err)"
  by (simp add: WrapGetConfigForClient_def)

text \<open>
  A nil config of the base callback panics where an overlay is written, and is returned
  where none is.
\<close>

lemma clusterTLSConfig_nil_base:
  "m hostname = Some c \<Longrightarrow> LoadTLSConfig c = Some cfg \<Longrightarrow>
   clusterTLSConfig m None hostname
     = (if ClientCAs cfg \<noteq> None \<or> Certificates cfg \<noteq> [] then Panic else Return (None, None))"
  by (simp add: clusterTLSConfig_def overlayClientCAs_def overlayCertificates_def)



text \<open>
  Claim C1, as stated: on a hit the returned config carries the certificates, the client
  CAs and \<open>ClientAuth = RequestClientCert\<close> of the cluster's loaded config. This fails
  for a cluster that has loaded certificates and no client-CA pool, as in the test
  \<open>replace serving key and crt\<close>: the \<open>ClientAuth\<close> of the base config stays, here
  \<open>NoClientCert\<close>, and no client certificate is requested.
\<close>

theorem WrapGetConfigForClient_overlay_counterexample:
  "exampleManager (exampleCluster (Some exampleCertsOnly) None) ''testing.cluster''
     = Some (exampleCluster (Some exampleCertsOnly) None)
   \<and> LoadTLSConfig (exampleCluster (Some exampleCertsOnly) None) = Some exampleCertsOnly
   \<and> WrapGetConfigForClient (exampleManager (exampleCluster (Some exampleCertsOnly) None))
       exampleSplitHostPort exampleGetConfig
       \<lparr>ServerName = ''testing.cluster'', LocalAddr = ''10.0.0.1:6443''\<rparr>
     = Return (Some \<lparr>Certificates = [''cluster-cert''], ClientCAs = None,
                 ClientAuth = NoClientCert, GetCertificate = None,
                 GetConfigForClient = None\<rparr>, None)
   \<and> ClientAuth \<lparr>Certificates = [''cluster-cert''], ClientCAs = None,
                 ClientAuth = NoClientCert, GetCertificate = None,
                 GetConfigForClient = None\<rparr> \<noteq> RequestClientCert"
  by (simp add: WrapGetConfigForClient_def handshakeHostname_def clusterTLSConfig_def
        overlayClientCAs_def overlayCertificates_def exampleManager_def exampleCluster_def
        LoadTLSConfig_def exampleGetConfig_def exampleBase_def exampleCertsOnly_def)

text \<open>
  Claim C1, amended. When the base callback has returned a config without an error and the
  hostname of the handshake resolves to a cluster with a loaded TLS config, the callback
  returns a copy of the base config in which the client CAs and
  \<open>ClientAuth = RequestClientCert\<close> are overlaid when the loaded config has a client-CA
  pool, and the certificates are overlaid, with \<open>GetCertificate\<close> and
  \<open>GetConfigForClient\<close> cleared, when the loaded config has a certificate; every other
  field is the base config's. For a hostname with no registered cluster the base config is
  returned unchanged.
\<close>

theorem WrapGetConfigForClient_overlays_cluster_config:
  assumes "getConfigFunc clientHello = (baseTLSConfig, None)"
      and "handshakeHostname splitHostPort clientHello = Some hostname"
  shows "(m hostname = Some cluster \<and> LoadTLSConfig cluster = Some cfg \<and> baseTLSConfig = Some base \<longrightarrow>
            WrapGetConfigForClient m splitHostPort getConfigFunc clientHello =
              Return (Some (base\<lparr>
                 Certificates := (if Certificates cfg \<noteq> [] then Certificates cfg else Certificates base),
                 ClientCAs := (if ClientCAs cfg \<noteq> None then ClientCAs cfg else ClientCAs base),
                 ClientAuth := (if ClientCAs cfg \<noteq> None then RequestClientCert else ClientAuth base),
                 GetCertificate := (if Certificates cfg \<noteq> [] then None else GetCertificate base),
                 GetConfigForClient :=
                   (if Certificates cfg \<noteq> [] then None else GetConfigForClient base)\<rparr>), None))
       \<and> (m hostname = None \<longrightarrow>
            WrapGetConfigForClient m splitHostPort getConfigFunc clientHello
              = Return (baseTLSConfig, None))"
  using assms
  by (simp add: WrapGetConfigForClient_def clusterTLSConfig_miss clusterTLSConfig_hit)

theorem WrapGetConfigForClient_overlays_cluster_config_witness:
  "WrapGetConfigForClient (exampleManager (exampleCluster (Some exampleCAOnly) None))
       exampleSplitHostPort exampleGetConfig \<lparr>ServerName = ''testing.cluster'', LocalAddr = ''10.0.0.1:6443''\<rparr>
     = Return (Some \<lparr>Certificates = [''gateway-cert''], ClientCAs = Some [''cluster-ca''],
                 ClientAuth = RequestClientCert, GetCertificate = Some (Callback 1),
                 GetConfigForClient = Some (Callback 2)\<rparr>, None)
   \<and> WrapGetConfigForClient (exampleManager (exampleCluster (Some exampleCAOnly) None))
       exampleSplitHostPort exampleGetConfig \<lparr>ServerName = ''other.cluster'', LocalAddr = ''10.0.0.1:6443''\<rparr>
     = Return (Some exampleBase, None)"
proof -
  have g: "\<And>h. exampleGetConfig h = (Some exampleBase, None)"
    by (simp add: exampleGetConfig_def)
  have h1: "handshakeHostname exampleSplitHostPort
              \<lparr>ServerName = ''testing.cluster'', LocalAddr = ''10.0.0.1:6443''\<rparr> = Some ''testing.cluster''"
    by (simp add: handshakeHostname_def)
  have h2: "handshakeHostname exampleSplitHostPort
              \<lparr>ServerName = ''other.cluster'', LocalAddr = ''10.0.0.1:6443''\<rparr> = Some ''other.cluster''"
    by (simp add: handshakeHostname_def)
  have m1: "exampleManager (exampleCluster (Some exampleCAOnly) None) ''testing.cluster''
               = Some (exampleCluster (Some exampleCAOnly) None)"
    and m2: "exampleManager (exampleCluster (Some exampleCAOnly) None) ''other.cluster'' = None"
    by (simp_all add: exampleManager_def)
  have l: "LoadTLSConfig (exampleCluster (Some exampleCAOnly) None) = Some exampleCAOnly"
    by (simp add: LoadTLSConfig_def exampleCluster_def)
  have hit:
    "WrapGetConfigForClient (exampleManager (exampleCluster (Some exampleCAOnly) None))
       exampleSplitHostPort exampleGetConfig
       \<lparr>ServerName = ''testing.cluster'', LocalAddr = ''10.0.0.1:6443''\<rparr>
     = Return (Some \<lparr>Certificates = [''gateway-cert''], ClientCAs = Some [''cluster-ca''],
                 ClientAuth = RequestClientCert, GetCertificate = Some (Callback 1),
                 GetConfigForClient = Some (Callback 2)\<rparr>, None)"
    using WrapGetConfigForClient_overlays_cluster_config
      [where m = "exampleManager (exampleCluster (Some exampleCAOnly) None)"
         and getConfigFunc = exampleGetConfig
         and cluster = "exampleCluster (Some exampleCAOnly) None"
         and cfg = exampleCAOnly and base = exampleBase, OF g h1, THEN conjunct1] m1 l
    by (simp add: exampleCAOnly_def exampleBase_def)
  have miss:
    "WrapGetConfigForClient (exampleManager (exampleCluster (Some exampleCAOnly) None))
       exampleSplitHostPort exampleGetConfig
       \<lparr>ServerName = ''other.cluster'', LocalAddr = ''10.0.0.1:6443''\<rparr>
     = Return (Some exampleBase, None)"
    using WrapGetConfigForClient_overlays_cluster_config
      [where m = "exampleManager (exampleCluster (Some exampleCAOnly) None)"
         and getConfigFunc = exampleGetConfig, OF g h2, THEN conjunct2] m2
    by simp
  show ?thesis
    using hit miss by simp
qed

section \<open>Properties of the SNI verify options\<close>

lemma HostWithoutPort_strips_port:
  "CHR '':'' \<notin> set port \<Longrightarrow> HostWithoutPort (host @ CHR '':'' # port) = host"
proof -
  assume "CHR '':'' \<notin> set port"
  then have "\<forall>c \<in> set (rev port). c \<noteq> CHR '':''"
    by auto
  then have "dropWhile (\<lambda>c. c \<noteq> CHR '':'') (rev port @ CHR '':'' # rev host) = CHR '':'' # rev host"
    by (simp add: dropWhile_append3)
  then show ?thesis
    by (simp add: HostWithoutPort_def)
qed

lemma HostWithoutPort_without_port:
  "CHR '':'' \<notin> set host \<Longrightarrow> HostWithoutPort host = host"
  by (simp add: HostWithoutPort_def)

text \<open>
  Claim C7. For every host given to \<open>SNIVerifyOptions\<close> the cluster is looked up under
  the hostname with its \<open>:port\<close> suffix stripped, so a host \<open>name:port\<close> is looked up
  under \<open>name\<close>, as is a host \<open>name\<close> without a port: when no cluster is registered
  under the stripped hostname the result is the zero \<open>x509.VerifyOptions\<close> and false, and
  when one is registered the result is that cluster's loaded verify options.
\<close>

theorem SNIVerifyOptions_lookup_without_port:
  "(CHR '':'' \<notin> set port \<and> m hostname = None \<longrightarrow>
      SNIVerifyOptions m (hostname @ CHR '':'' # port) = (\<lparr>Roots = None\<rparr>, False))
   \<and> (CHR '':'' \<notin> set port \<and> m hostname = Some cluster \<longrightarrow>
      SNIVerifyOptions m (hostname @ CHR '':'' # port) = LoadVerifyOptions cluster)
   \<and> (CHR '':'' \<notin> set hostname \<and> m hostname = None \<longrightarrow>
      SNIVerifyOptions m hostname = (\<lparr>Roots = None\<rparr>, False))
   \<and> (CHR '':'' \<notin> set hostname \<and> m hostname = Some cluster \<longrightarrow>
      SNIVerifyOptions m hostname = LoadVerifyOptions cluster)
   \<and> SNIVerifyOptions m host =
       (case m (HostWithoutPort host) of
          None \<Rightarrow> (\<lparr>Roots = None\<rparr>, False)
        | Some cluster \<Rightarrow> LoadVerifyOptions cluster)"
  by (simp add: SNIVerifyOptions_def emptyVerifyOptions_def HostWithoutPort_strips_port
        HostWithoutPort_without_port)

theorem SNIVerifyOptions_lookup_without_port_witness:
  "SNIVerifyOptions (exampleManager (exampleCluster None (Some exampleVerifyOptions)))
       ''testing.cluster:6443''
     = (\<lparr>Roots = Some [''cluster-ca'']\<rparr>, True)
   \<and> SNIVerifyOptions (exampleManager (exampleCluster None (Some exampleVerifyOptions)))
       ''testing.cluster''
     = (\<lparr>Roots = Some [''cluster-ca'']\<rparr>, True)
   \<and> SNIVerifyOptions (exampleManager (exampleCluster None (Some exampleVerifyOptions)))
       ''other.cluster:6443''
     = (\<lparr>Roots = None\<rparr>, False)"
proof -
  let ?m = "exampleManager (exampleCluster None (Some exampleVerifyOptions))"
  have m1: "?m ''testing.cluster'' = Some (exampleCluster None (Some exampleVerifyOptions))"
    and m2: "?m ''other.cluster'' = None"
    by (simp_all add: exampleManager_def)
  have l: "LoadVerifyOptions (exampleCluster None (Some exampleVerifyOptions))
             = (\<lparr>Roots = Some [''cluster-ca'']\<rparr>, True)"
    by (simp add: LoadVerifyOptions_def exampleCluster_def exampleVerifyOptions_def)
  have hit_with_port:
    "SNIVerifyOptions ?m ''testing.cluster:6443'' = (\<lparr>Roots = Some [''cluster-ca'']\<rparr>, True)"
    using SNIVerifyOptions_lookup_without_port
      [where m = ?m and hostname = "''testing.cluster''" and port = "''6443''"
         and cluster = "exampleCluster None (Some exampleVerifyOptions)",
       THEN conjunct2, THEN conjunct1]
      m1 l
    by simp
  have hit_without_port:
    "SNIVerifyOptions ?m ''testing.cluster'' = (\<lparr>Roots = Some [''cluster-ca'']\<rparr>, True)"
    using SNIVerifyOptions_lookup_without_port
      [where m = ?m and hostname = "''testing.cluster''"
         and cluster = "exampleCluster None (Some exampleVerifyOptions)",
       THEN conjunct2, THEN conjunct2, THEN conjunct2, THEN conjunct1]
      m1 l
    by simp
  have miss:
    "SNIVerifyOptions ?m ''other.cluster:6443'' = (\<lparr>Roots = None\<rparr>, False)"
    using SNIVerifyOptions_lookup_without_port
      [where m = ?m and hostname = "''other.cluster''" and port = "''6443''",
       THEN conjunct1]
      m2
    by simp
  from hit_with_port hit_without_port miss show ?thesis
    by blast
qed

section \<open>Properties of the endpoint sync\<close>

lemma syncEndpoints_keys:
  "set (map fst (endpoints (syncEndpoints c servers)))
     = set (map ServerEndpoint (filter (\<lambda>server. \<not> ServerDisabled server) servers))"
proof -
  have "\<And>a b. (a, b) \<in> set (endpoints c) \<Longrightarrow> \<exists>x\<in>set (endpoints c). a = fst x"
    by force
  then show ?thesis
    by (auto simp add: syncEndpoints_def Let_def image_iff split: prod.splits)
qed

lemma syncEndpoints_distinct:
  "distinct (AllEndpoints c) \<Longrightarrow> distinct (AllEndpoints (syncEndpoints c servers))"
  by (auto simp add: AllEndpoints_def syncEndpoints_def Let_def distinct_map_filter
        distinct_map inj_on_def comp_def split: prod.splits intro!: inj_onI)

text \<open>
  Claim C4. For every list of servers, after \<open>syncEndpoints(servers)\<close> the URLs that
  \<open>AllEndpoints()\<close> returns are exactly the endpoint URLs of the servers of the list that
  are not disabled, and so are the keys of the endpoint mapping: a listed endpoint is
  present, and no \<open>EndpointInfo\<close> of an endpoint that is not listed remains.
\<close>

theorem syncEndpoints_keys_mirror:
  "set (AllEndpoints (syncEndpoints c servers))
     = set (map ServerEndpoint (filter (\<lambda>server. \<not> ServerDisabled server) servers))
   \<and> fst ` set (endpoints (syncEndpoints c servers))
     = set (map ServerEndpoint (filter (\<lambda>server. \<not> ServerDisabled server) servers))"
  using syncEndpoints_keys [of c servers]
  by (simp add: AllEndpoints_def)

theorem syncEndpoints_keys_mirror_witness:
  "set (AllEndpoints (syncEndpoints (exampleCluster None None)
          [\<lparr>ServerEndpoint = ''https://127.0.0.1:443'', ServerDisabled = False\<rparr>,
           \<lparr>ServerEndpoint = ''https://127.0.0.2:443'', ServerDisabled = False\<rparr>]))
     = {''https://127.0.0.1:443'', ''https://127.0.0.2:443''}
   \<and> set (AllEndpoints (syncEndpoints (exampleCluster None None)
          [\<lparr>ServerEndpoint = ''https://127.0.0.2:443'', ServerDisabled = False\<rparr>]))
     = {''https://127.0.0.2:443''}
   \<and> set (AllEndpoints (syncEndpoints (exampleCluster None None)
          [\<lparr>ServerEndpoint = ''https://127.0.0.2:443'', ServerDisabled = True\<rparr>,
           \<lparr>ServerEndpoint = ''https://127.0.0.3:443'', ServerDisabled = False\<rparr>]))
     = {''https://127.0.0.3:443''}"
proof -
  have add: "set (AllEndpoints (syncEndpoints (exampleCluster None None)
          [\<lparr>ServerEndpoint = ''https://127.0.0.1:443'', ServerDisabled = False\<rparr>,
           \<lparr>ServerEndpoint = ''https://127.0.0.2:443'', ServerDisabled = False\<rparr>]))
     = {''https://127.0.0.1:443'', ''https://127.0.0.2:443''}"
    unfolding syncEndpoints_keys_mirror [THEN conjunct1] by simp
  have delete: "set (AllEndpoints (syncEndpoints (exampleCluster None None)
          [\<lparr>ServerEndpoint = ''https://127.0.0.2:443'', ServerDisabled = False\<rparr>]))
     = {''https://127.0.0.2:443''}"
    unfolding syncEndpoints_keys_mirror [THEN conjunct1] by simp
  have disabled: "set (AllEndpoints (syncEndpoints (exampleCluster None None)
          [\<lparr>ServerEndpoint = ''https://127.0.0.2:443'', ServerDisabled = True\<rparr>,
           \<lparr>ServerEndpoint = ''https://127.0.0.3:443'', ServerDisabled = False\<rparr>]))
     = {''https://127.0.0.3:443''}"
    unfolding syncEndpoints_keys_mirror [THEN conjunct1] by simp
  from add delete disabled show ?thesis by blast
qed

section \<open>Properties of the secure-serving sync\<close>

text \<open>
  Claim C6. After the sync of a cluster's secure-serving config from a \<open>SecureServing\<close>
  whose key, certificate and client-CA data are all empty, the sync has succeeded,
  \<open>LoadTLSConfig()\<close> is not ok and \<open>LoadVerifyOptions()\<close> is not ok, with the zero
  verify options.
\<close>

theorem syncSecureServingConfigLocked_empty:
  "KeyData secureServing = [] \<and> CertData secureServing = [] \<and> ClientCAData secureServing = [] \<longrightarrow>
     (\<exists>c'. syncSecureServingConfigLocked keyPair poolFromBytes c secureServing = Inr c'
          \<and> LoadTLSConfig c' = None
          \<and> LoadVerifyOptions c' = (\<lparr>Roots = None\<rparr>, False))"
  by (simp add: syncSecureServingConfigLocked_def LoadTLSConfig_def LoadVerifyOptions_def
        emptyVerifyOptions_def)

theorem syncSecureServingConfigLocked_empty_witness:
  "LoadTLSConfig (exampleCluster (Some exampleCertsOnly) (Some exampleVerifyOptions))
     = Some exampleCertsOnly
   \<and> LoadVerifyOptions (exampleCluster (Some exampleCertsOnly) (Some exampleVerifyOptions))
     = (exampleVerifyOptions, True)
   \<and> (\<exists>c'. syncSecureServingConfigLocked exampleKeyPair examplePoolFromBytes
             (exampleCluster (Some exampleCertsOnly) (Some exampleVerifyOptions))
             \<lparr>KeyData = [], CertData = [], ClientCAData = []\<rparr> = Inr c'
          \<and> LoadTLSConfig c' = None
          \<and> LoadVerifyOptions c' = (\<lparr>Roots = None\<rparr>, False))"
proof -
  have before: "LoadTLSConfig (exampleCluster (Some exampleCertsOnly) (Some exampleVerifyOptions))
     = Some exampleCertsOnly"
    "LoadVerifyOptions (exampleCluster (Some exampleCertsOnly) (Some exampleVerifyOptions))
     = (exampleVerifyOptions, True)"
    by (simp_all add: LoadTLSConfig_def LoadVerifyOptions_def exampleCluster_def)
  have after: "\<exists>c'. syncSecureServingConfigLocked exampleKeyPair examplePoolFromBytes
             (exampleCluster (Some exampleCertsOnly) (Some exampleVerifyOptions))
             \<lparr>KeyData = [], CertData = [], ClientCAData = []\<rparr> = Inr c'
          \<and> LoadTLSConfig c' = None
          \<and> LoadVerifyOptions c' = (\<lparr>Roots = None\<rparr>, False)"
    using syncSecureServingConfigLocked_empty
      [where secureServing = "\<lparr>KeyData = [], CertData = [], ClientCAData = []\<rparr>"
         and keyPair = exampleKeyPair and poolFromBytes = examplePoolFromBytes
         and c = "exampleCluster (Some exampleCertsOnly) (Some exampleVerifyOptions)"]
    by simp
  from before after show ?thesis by blast
qed

text \<open>
  The two other cases of \<open>TestClusterInfo_syncSecureServingConfigLocked\<close>: a key with its
  certificate gives a TLS config with certificates and no client CAs, and no verify
  options; a client CA alone gives verify options and a TLS config with client CAs and no
  certificate.
\<close>

lemma syncSecureServingConfigLocked_key_and_cert:
  "ClientCAData secureServing = [] \<Longrightarrow> KeyData secureServing \<noteq> [] \<Longrightarrow>
   keyPair (CertData secureServing) (KeyData secureServing) = Inr cert \<Longrightarrow>
   \<exists>c' cfg. syncSecureServingConfigLocked keyPair poolFromBytes c secureServing = Inr c'
     \<and> snd (LoadVerifyOptions c') = False
     \<and> LoadTLSConfig c' = Some cfg \<and> ClientCAs cfg = None \<and> Certificates cfg = [cert]"
  by (simp add: syncSecureServingConfigLocked_def LoadTLSConfig_def LoadVerifyOptions_def)

lemma syncSecureServingConfigLocked_client_ca:
  "KeyData secureServing = [] \<Longrightarrow> CertData secureServing = [] \<Longrightarrow>
   ClientCAData secureServing \<noteq> [] \<Longrightarrow> poolFromBytes (ClientCAData secureServing) = Inr pool \<Longrightarrow>
   \<exists>c' cfg. syncSecureServingConfigLocked keyPair poolFromBytes c secureServing = Inr c'
     \<and> LoadVerifyOptions c' = (\<lparr>Roots = Some pool\<rparr>, True)
     \<and> LoadTLSConfig c' = Some cfg \<and> ClientCAs cfg = Some pool \<and> Certificates cfg = []"
  by (simp add: syncSecureServingConfigLocked_def LoadTLSConfig_def LoadVerifyOptions_def)

section \<open>Properties of the flow-control sync\<close>

subsection \<open>The mapping of the limiters\<close>

lemma Load_Store: "Load (Store fc name l) n = (if n = name then Some l else Load fc n)"
  by (simp add: Load_def Store_def AList.update_conv')

lemma Load_Delete: "Load (Delete fc name) n = (if n = name then None else Load fc n)"
  by (simp add: Load_def Delete_def AList.delete_conv')

lemma created_Store: "created (Store fc name l) = created fc"
  by (simp add: Store_def)

lemma created_Delete: "created (Delete fc name) = created fc"
  by (simp add: Delete_def)

lemma Load_createLimiter:
  "Load (createLimiter schema fc) n
     = (if n = Name schema then Some (NewFlowControl (created fc) schema) else Load fc n)"
  by (simp add: createLimiter_def Load_Store) (simp add: Load_def)

lemma created_createLimiter: "created (createLimiter schema fc) = Suc (created fc)"
  by (simp add: createLimiter_def created_Store)

subsection \<open>One schema, and the loop over the new schemas\<close>

lemma Load_syncSchema_other:
  "n \<noteq> Name schema \<Longrightarrow> Load (syncSchema old schema fc) n = Load fc n"
  by (simp add: syncSchema_def Load_createLimiter Load_Store split: option.splits)

lemma created_syncSchema: "created fc \<le> created (syncSchema old schema fc)"
  by (simp add: syncSchema_def created_createLimiter created_Store split: option.splits)

lemma Load_fold_syncSchema_other:
  "n \<notin> Name ` set new \<Longrightarrow> Load (fold (syncSchema old) new fc) n = Load fc n"
  by (induction new arbitrary: fc) (simp_all add: Load_syncSchema_other)

lemma created_fold_syncSchema: "created fc \<le> created (fold (syncSchema old) new fc)"
proof (induction new arbitrary: fc)
  case Nil
  show ?case by simp
next
  case (Cons schema new)
  have "created fc \<le> created (syncSchema old schema fc)"
    by (rule created_syncSchema)
  also have "\<dots> \<le> created (fold (syncSchema old) new (syncSchema old schema fc))"
    by (rule Cons.IH)
  finally show ?case by simp
qed

lemma Load_syncSchema_created:
  "Name schema \<notin> Name ` set old \<Longrightarrow>
   Load (syncSchema old schema fc) (Name schema) = Some (NewFlowControl (created fc) schema)"
  by (simp add: syncSchema_def Load_createLimiter)

lemma Load_syncSchema_resized:
  "Name schema \<in> Name ` set old \<Longrightarrow> Load fc (Name schema) = Some l \<Longrightarrow>
   sameVariant (parameters l) (Configuration schema) \<Longrightarrow>
   Load (syncSchema old schema fc) (Name schema) = Some (l\<lparr>parameters := Configuration schema\<rparr>)"
  by (simp add: syncSchema_def Resize_def Load_Store)

lemma Load_fold_syncSchema_created:
  "distinct (map Name new) \<Longrightarrow> schema \<in> set new \<Longrightarrow> Name schema \<notin> Name ` set old \<Longrightarrow>
   \<exists>i. created fc \<le> i \<and>
       Load (fold (syncSchema old) new fc) (Name schema) = Some (NewFlowControl i schema)"
proof (induction new arbitrary: fc)
  case Nil
  then show ?case by simp
next
  case (Cons x new)
  show ?case
  proof (cases "x = schema")
    case True
    with Cons.prems have "Name schema \<notin> Name ` set new" by auto
    then have "Load (fold (syncSchema old) new (syncSchema old schema fc)) (Name schema)
                 = Load (syncSchema old schema fc) (Name schema)"
      by (rule Load_fold_syncSchema_other)
    with True Cons.prems(3) show ?thesis
      by (auto simp add: Load_syncSchema_created)
  next
    case False
    with Cons.prems have in_new: "schema \<in> set new" and d: "distinct (map Name new)" by auto
    from Cons.IH [OF d in_new Cons.prems(3), of "syncSchema old x fc"]
    obtain i where "created (syncSchema old x fc) \<le> i"
      and "Load (fold (syncSchema old) new (syncSchema old x fc)) (Name schema)
             = Some (NewFlowControl i schema)"
      by blast
    moreover have "created fc \<le> created (syncSchema old x fc)"
      by (rule created_syncSchema)
    ultimately show ?thesis
      by (auto intro: exI [of _ i])
  qed
qed

lemma Load_fold_syncSchema_resized:
  "distinct (map Name new) \<Longrightarrow> schema \<in> set new \<Longrightarrow> Name schema \<in> Name ` set old \<Longrightarrow>
   Load fc (Name schema) = Some l \<Longrightarrow> sameVariant (parameters l) (Configuration schema) \<Longrightarrow>
   Load (fold (syncSchema old) new fc) (Name schema)
     = Some (l\<lparr>parameters := Configuration schema\<rparr>)"
proof (induction new arbitrary: fc)
  case Nil
  then show ?case by simp
next
  case (Cons x new)
  show ?case
  proof (cases "x = schema")
    case True
    with Cons.prems have "Name schema \<notin> Name ` set new" by auto
    then have "Load (fold (syncSchema old) new (syncSchema old schema fc)) (Name schema)
                 = Load (syncSchema old schema fc) (Name schema)"
      by (rule Load_fold_syncSchema_other)
    with True Cons.prems show ?thesis
      by (simp add: Load_syncSchema_resized)
  next
    case False
    from Cons.prems(1) have d: "distinct (map Name new)" and nx: "Name x \<notin> Name ` set new"
      by simp_all
    from Cons.prems(2) False have in_new: "schema \<in> set new" by simp
    from in_new nx have ne: "Name schema \<noteq> Name x" by (metis imageI)
    have "Load (syncSchema old x fc) (Name schema) = Some l"
      using ne Cons.prems(4) by (simp add: Load_syncSchema_other)
    from Cons.IH [OF d in_new Cons.prems(3) this Cons.prems(5)]
    show ?thesis by simp
  qed
qed

lemma parameters_syncSchema:
  "\<exists>l. Load (syncSchema old schema fc) (Name schema) = Some l
       \<and> parameters l = Configuration schema"
  by (auto simp add: syncSchema_def Resize_def Load_createLimiter Load_Store NewFlowControl_def
        split: option.splits)

lemma parameters_fold_syncSchema:
  "distinct (map Name new) \<Longrightarrow> schema \<in> set new \<Longrightarrow>
   \<exists>l. Load (fold (syncSchema old) new fc) (Name schema) = Some l
       \<and> parameters l = Configuration schema"
proof (induction new arbitrary: fc)
  case Nil
  then show ?case by simp
next
  case (Cons x new)
  from Cons.prems(1) have d: "distinct (map Name new)" and nx: "Name x \<notin> Name ` set new"
    by simp_all
  show ?case
  proof (cases "x = schema")
    case True
    with nx have "Load (fold (syncSchema old) new (syncSchema old schema fc)) (Name schema)
                 = Load (syncSchema old schema fc) (Name schema)"
      by (simp add: Load_fold_syncSchema_other)
    with True parameters_syncSchema [of old schema fc] show ?thesis by simp
  next
    case False
    with Cons.prems(2) have "schema \<in> set new" by simp
    from Cons.IH [OF d this] show ?thesis by simp
  qed
qed

subsection \<open>Retiring, and the release of the outstanding permits\<close>

lemma Load_retire:
  "Load (retire name fc) n =
     (if n = name
      then (case Load fc n of
              None \<Rightarrow> None
            | Some l \<Rightarrow> if permits l = 0 then None else Some (l\<lparr>retired := True\<rparr>))
      else Load fc n)"
  by (simp add: retire_def Load_Store Load_Delete split: option.splits)

lemma Load_fold_retire:
  "Load (fold retire names fc) n =
     (if n \<in> set names
      then (case Load fc n of
              None \<Rightarrow> None
            | Some l \<Rightarrow> if permits l = 0 then None else Some (l\<lparr>retired := True\<rparr>))
      else Load fc n)"
  by (induction names arbitrary: fc) (auto simp add: Load_retire split: option.splits)

lemma Load_Sync_new:
  "n \<in> Name ` set new \<Longrightarrow> Load (Sync old new fc) n = Load (fold (syncSchema old) new fc) n"
  by (simp add: Sync_def Let_def Load_fold_retire)

lemma Load_Sync_removed:
  "n \<in> Name ` set old \<Longrightarrow> n \<notin> Name ` set new \<Longrightarrow>
   Load (Sync old new fc) n =
     (case Load fc n of
        None \<Rightarrow> None
      | Some l \<Rightarrow> if permits l = 0 then None else Some (l\<lparr>retired := True\<rparr>))"
  by (simp add: Sync_def Let_def Load_fold_retire Load_fold_syncSchema_other)

lemma Load_Release:
  "Load (Release name fc) n =
     (if n = name
      then (case Load fc n of
              None \<Rightarrow> None
            | Some l \<Rightarrow> if retired l \<and> permits l - 1 = 0 then None
                        else Some (l\<lparr>permits := permits l - 1\<rparr>))
      else Load fc n)"
  by (simp add: Release_def Let_def Load_Store Load_Delete split: option.splits)

lemma Release_drains:
  "Load fc name = Some l \<Longrightarrow> retired l \<Longrightarrow> 0 < permits l \<Longrightarrow>
   Load ((Release name ^^ permits l) fc) name = None"
proof (induction "permits l" arbitrary: fc l)
  case 0
  then show ?case by simp
next
  case (Suc k)
  from Suc.hyps(2) have p: "permits l = Suc k" by simp
  show ?case
  proof (cases k)
    case 0
    with p Suc.prems show ?thesis
      by (simp add: Load_Release)
  next
    case (Suc j)
    let ?l = "l\<lparr>permits := k\<rparr>"
    have step: "Load (Release name fc) name = Some ?l"
      using Suc.prems p Suc by (simp add: Load_Release)
    have "Load ((Release name ^^ permits ?l) (Release name fc)) name = None"
      using Suc.hyps(1) [of ?l "Release name fc"] step Suc.prems Suc
      by simp
    then show ?thesis
      by (simp add: p funpow_swap1)
  qed
qed

subsection \<open>The limiters are created before now\<close>

lemma set_update_subset: "set (AList.update k v al) \<subseteq> insert (k, v) (set al)"
  by (induction al) auto

lemma set_delete_subset: "set (AList.delete k al) \<subseteq> set al"
  by (auto simp add: AList.delete_eq)

lemma identsBelow_Store:
  "identsBelow fc \<Longrightarrow> ident l < created fc \<Longrightarrow> identsBelow (Store fc name l)"
  using set_update_subset [of name l "limiters fc"]
  by (auto simp add: identsBelow_def Store_def)

lemma identsBelow_Delete: "identsBelow fc \<Longrightarrow> identsBelow (Delete fc name)"
  using set_delete_subset [of name "limiters fc"]
  by (auto simp add: identsBelow_def Delete_def)

lemma identsBelow_Load: "identsBelow fc \<Longrightarrow> Load fc name = Some l \<Longrightarrow> ident l < created fc"
  by (auto simp add: identsBelow_def Load_def dest!: map_of_SomeD)

lemma identsBelow_createLimiter: "identsBelow fc \<Longrightarrow> identsBelow (createLimiter schema fc)"
  using set_update_subset [of "Name schema" "NewFlowControl (created fc) schema" "limiters fc"]
  by (fastforce simp add: identsBelow_def createLimiter_def Store_def NewFlowControl_def)

lemma identsBelow_syncSchema: "identsBelow fc \<Longrightarrow> identsBelow (syncSchema old schema fc)"
  by (auto simp add: syncSchema_def Resize_def identsBelow_createLimiter
        intro!: identsBelow_Store dest: identsBelow_Load split: option.splits if_splits)

lemma identsBelow_retire: "identsBelow fc \<Longrightarrow> identsBelow (retire name fc)"
  by (auto simp add: retire_def identsBelow_Delete
        intro!: identsBelow_Store dest: identsBelow_Load split: option.splits)

lemma identsBelow_fold_syncSchema:
  "identsBelow fc \<Longrightarrow> identsBelow (fold (syncSchema old) new fc)"
  by (induction new arbitrary: fc) (simp_all add: identsBelow_syncSchema)

lemma identsBelow_fold_retire: "identsBelow fc \<Longrightarrow> identsBelow (fold retire names fc)"
  by (induction names arbitrary: fc) (simp_all add: identsBelow_retire)

lemma identsBelow_Sync: "identsBelow fc \<Longrightarrow> identsBelow (Sync old new fc)"
  by (simp add: Sync_def Let_def identsBelow_fold_retire identsBelow_fold_syncSchema)

subsection \<open>The state between two syncs\<close>

text \<open>
  A cluster without schemas and limiters is in that state, and a sync to schemas with
  distinct names leads from it to it.
\<close>

lemma flowControlSynced_fresh:
  "currentFlowControl c = [] \<Longrightarrow> limiters (flowcontrol c) = [] \<Longrightarrow> flowControlSynced c"
  by (simp add: flowControlSynced_def identsBelow_def)

lemma flowControlSynced_syncFlowControlLocked:
  assumes "flowControlSynced c" and "distinct (map Name newObj)"
  shows "flowControlSynced (syncFlowControlLocked c newObj)"
proof -
  have "identsBelow (flowcontrol c)"
    using assms(1) by (simp add: flowControlSynced_def identsBelow_def)
  then have "identsBelow (Sync (currentFlowControl c) newObj (flowcontrol c))"
    by (rule identsBelow_Sync)
  moreover have "case Load (Sync (currentFlowControl c) newObj (flowcontrol c)) (Name schema) of
            None \<Rightarrow> False | Some l \<Rightarrow> parameters l = Configuration schema"
    if "schema \<in> set newObj" for schema
    using parameters_fold_syncSchema [OF assms(2) that, of "currentFlowControl c" "flowcontrol c"] that
    by (auto simp add: Load_Sync_new)
  ultimately show ?thesis
    using assms(2) by (simp add: flowControlSynced_def identsBelow_def syncFlowControlLocked_def)
qed

subsection \<open>Creation, retirement and resizing\<close>

text \<open>
  Claim C3. Let a cluster be synced to the schemas \<open>old\<close>, and sync it to the schemas
  \<open>new\<close>, whose names are distinct. Then every schema of \<open>new\<close> whose name is not in
  \<open>old\<close> has a limiter that has just been created: it is no limiter of the state before.
  Every schema of \<open>old\<close> whose name is not in \<open>new\<close> has no limiter left when it had no
  outstanding permit; otherwise its limiter is retired, and is gone when its outstanding
  permits have been released. And every name in both, whose schema has changed in its
  numbers only, keeps its limiter object, with its outstanding permits, resized to the
  new parameters.
\<close>

theorem syncFlowControlLocked_creates_retires_resizes:
  assumes "flowControlSynced c" and "distinct (map Name newObj)"
  shows
    "(schema \<in> set newObj \<and> Name schema \<notin> Name ` set (currentFlowControl c) \<longrightarrow>
        (\<exists>i. Load (flowcontrol (syncFlowControlLocked c newObj)) (Name schema)
                = Some (NewFlowControl i schema)
             \<and> (\<forall>entry \<in> set (limiters (flowcontrol c)). ident (snd entry) \<noteq> i)))
     \<and> (oldSchema \<in> set (currentFlowControl c) \<and> Name oldSchema \<notin> Name ` set newObj \<longrightarrow>
        (\<exists>l. Load (flowcontrol c) (Name oldSchema) = Some l
             \<and> Load (flowcontrol (syncFlowControlLocked c newObj)) (Name oldSchema)
                 = (if permits l = 0 then None else Some (l\<lparr>retired := True\<rparr>))
             \<and> Load ((Release (Name oldSchema) ^^ permits l)
                       (flowcontrol (syncFlowControlLocked c newObj))) (Name oldSchema) = None))
     \<and> (keptSchema \<in> set (currentFlowControl c) \<and> resized \<in> set newObj
          \<and> Name keptSchema = Name resized
          \<and> sameVariant (Configuration keptSchema) (Configuration resized) \<longrightarrow>
        (\<exists>l. Load (flowcontrol c) (Name resized) = Some l
             \<and> Load (flowcontrol (syncFlowControlLocked c newObj)) (Name resized)
                 = Some (l\<lparr>parameters := Configuration resized\<rparr>)))"
proof (intro conjI impI)
  let ?old = "currentFlowControl c" and ?fc = "flowcontrol c"
  have fc': "flowcontrol (syncFlowControlLocked c newObj) = Sync ?old newObj ?fc"
    by (simp add: syncFlowControlLocked_def)
  have below: "\<And>entry. entry \<in> set (limiters ?fc) \<Longrightarrow> ident (snd entry) < created ?fc"
    using assms(1) by (simp add: flowControlSynced_def identsBelow_def)
  have present: "\<exists>l. Load ?fc (Name s) = Some l \<and> parameters l = Configuration s"
    if "s \<in> set ?old" for s
    using assms(1) that by (auto simp add: flowControlSynced_def split: option.splits)
  {
    assume "schema \<in> set newObj \<and> Name schema \<notin> Name ` set ?old"
    then have a: "schema \<in> set newObj" and b: "Name schema \<notin> Name ` set ?old" by simp_all
    from Load_fold_syncSchema_created [OF assms(2) a b, of ?fc]
    obtain i where i: "created ?fc \<le> i"
      and l: "Load (fold (syncSchema ?old) newObj ?fc) (Name schema) = Some (NewFlowControl i schema)"
      by blast
    from a l have "Load (flowcontrol (syncFlowControlLocked c newObj)) (Name schema)
                     = Some (NewFlowControl i schema)"
      by (simp add: fc' Load_Sync_new)
    moreover from i below have "\<forall>entry \<in> set (limiters ?fc). ident (snd entry) \<noteq> i"
      by fastforce
    ultimately show "\<exists>i. Load (flowcontrol (syncFlowControlLocked c newObj)) (Name schema)
                = Some (NewFlowControl i schema)
             \<and> (\<forall>entry \<in> set (limiters (flowcontrol c)). ident (snd entry) \<noteq> i)"
      by blast
  }
  {
    assume "oldSchema \<in> set ?old \<and> Name oldSchema \<notin> Name ` set newObj"
    then have a: "oldSchema \<in> set ?old" and b: "Name oldSchema \<notin> Name ` set newObj" by simp_all
    from present [OF a] obtain l where l: "Load ?fc (Name oldSchema) = Some l" by blast
    from a have "Name oldSchema \<in> Name ` set ?old" by simp
    from Load_Sync_removed [OF this b, of ?fc] l
    have r: "Load (Sync ?old newObj ?fc) (Name oldSchema)
               = (if permits l = 0 then None else Some (l\<lparr>retired := True\<rparr>))"
      by simp
    have "Load ((Release (Name oldSchema) ^^ permits l) (Sync ?old newObj ?fc)) (Name oldSchema) = None"
    proof (cases "permits l = 0")
      case True
      with r show ?thesis by simp
    next
      case False
      with r have "Load (Sync ?old newObj ?fc) (Name oldSchema) = Some (l\<lparr>retired := True\<rparr>)"
        by simp
      from Release_drains [OF this] False show ?thesis by simp
    qed
    with l r show "\<exists>l. Load (flowcontrol c) (Name oldSchema) = Some l
             \<and> Load (flowcontrol (syncFlowControlLocked c newObj)) (Name oldSchema)
                 = (if permits l = 0 then None else Some (l\<lparr>retired := True\<rparr>))
             \<and> Load ((Release (Name oldSchema) ^^ permits l)
                       (flowcontrol (syncFlowControlLocked c newObj))) (Name oldSchema) = None"
      by (simp add: fc')
  }
  {
    assume "keptSchema \<in> set ?old \<and> resized \<in> set newObj \<and> Name keptSchema = Name resized
          \<and> sameVariant (Configuration keptSchema) (Configuration resized)"
    then have a: "keptSchema \<in> set ?old" and b: "resized \<in> set newObj"
      and n: "Name keptSchema = Name resized"
      and v: "sameVariant (Configuration keptSchema) (Configuration resized)"
      by simp_all
    from present [OF a] n obtain l where l: "Load ?fc (Name resized) = Some l"
      and p: "parameters l = Configuration keptSchema"
      by auto
    from a n have "Name resized \<in> Name ` set ?old" by (metis imageI)
    from Load_fold_syncSchema_resized [OF assms(2) b this l] p v
    have "Load (fold (syncSchema ?old) newObj ?fc) (Name resized)
            = Some (l\<lparr>parameters := Configuration resized\<rparr>)"
      by simp
    with b l show "\<exists>l. Load (flowcontrol c) (Name resized) = Some l
             \<and> Load (flowcontrol (syncFlowControlLocked c newObj)) (Name resized)
                 = Some (l\<lparr>parameters := Configuration resized\<rparr>)"
      by (simp add: fc' Load_Sync_new)
  }
qed

theorem syncFlowControlLocked_creates_retires_resizes_witness:
  "(\<exists>i. Load (flowcontrol (syncFlowControlLocked exampleSynced [maxInflight20, exampleExtra])) ''extra''
          = Some \<lparr>ident = i, parameters = MaxRequestsInflight 5, permits = 0, retired = False\<rparr>
        \<and> i \<notin> {0, 1, 2})
   \<and> Load (flowcontrol (syncFlowControlLocked exampleSynced [maxInflight20, exampleExtra])) ''exempt''
       = Some \<lparr>ident = 0, parameters = Exempt, permits = 2, retired = True\<rparr>
   \<and> Load ((Release ''exempt'' ^^ 2)
            (flowcontrol (syncFlowControlLocked exampleSynced [maxInflight20, exampleExtra]))) ''exempt''
       = None
   \<and> Load (flowcontrol (syncFlowControlLocked exampleSynced [maxInflight20, exampleExtra])) ''tokenbucket''
       = None
   \<and> Load (flowcontrol (syncFlowControlLocked exampleSynced [maxInflight20, exampleExtra])) ''max-inflight''
       = Some \<lparr>ident = 1, parameters = MaxRequestsInflight 20, permits = 3, retired = False\<rparr>"
proof -
  let ?new = "[maxInflight20, exampleExtra]"
  have inv: "flowControlSynced exampleSynced"
    by (simp add: flowControlSynced_def identsBelow_def exampleSynced_def exampleCluster_def
          exempt_def maxInflight10_def tokenBucket10_def Load_def)
  have d: "distinct (map Name ?new)"
    by (simp add: maxInflight20_def exampleExtra_def)
  have cur: "currentFlowControl exampleSynced = [exempt, maxInflight10, tokenBucket10]"
    by (simp add: exampleSynced_def)
  have lims: "limiters (flowcontrol exampleSynced) =
           [(''exempt'', \<lparr>ident = 0, parameters = Exempt, permits = 2, retired = False\<rparr>),
            (''max-inflight'',
             \<lparr>ident = 1, parameters = MaxRequestsInflight 10, permits = 3, retired = False\<rparr>),
            (''tokenbucket'',
             \<lparr>ident = 2, parameters = TokenBucket 10 20, permits = 0, retired = False\<rparr>)]"
    by (simp add: exampleSynced_def)
  have names: "Name exempt = ''exempt''" "Name maxInflight10 = ''max-inflight''"
    "Name tokenBucket10 = ''tokenbucket''" "Name maxInflight20 = ''max-inflight''"
    "Name exampleExtra = ''extra''"
    by (simp_all add: exempt_def maxInflight10_def tokenBucket10_def maxInflight20_def
          exampleExtra_def)
  have confs: "Configuration maxInflight10 = MaxRequestsInflight 10"
    "Configuration maxInflight20 = MaxRequestsInflight 20"
    by (simp_all add: maxInflight10_def maxInflight20_def)
  have created:
    "\<exists>i. Load (flowcontrol (syncFlowControlLocked exampleSynced ?new)) ''extra''
          = Some \<lparr>ident = i, parameters = MaxRequestsInflight 5, permits = 0, retired = False\<rparr>
        \<and> i \<notin> {0, 1, 2}"
    using syncFlowControlLocked_creates_retires_resizes
      [where c = exampleSynced and newObj = ?new and schema = exampleExtra,
       OF inv d, THEN conjunct1]
    by (auto simp add: cur lims names NewFlowControl_def exampleExtra_def)
  have retired_exempt:
    "Load (flowcontrol (syncFlowControlLocked exampleSynced ?new)) ''exempt''
       = Some \<lparr>ident = 0, parameters = Exempt, permits = 2, retired = True\<rparr>
     \<and> Load ((Release ''exempt'' ^^ 2) (flowcontrol (syncFlowControlLocked exampleSynced ?new)))
          ''exempt'' = None"
    using syncFlowControlLocked_creates_retires_resizes
      [where c = exampleSynced and newObj = ?new and oldSchema = exempt,
       OF inv d, THEN conjunct2, THEN conjunct1]
    by (auto simp add: cur lims names Load_def)
  have dropped:
    "Load (flowcontrol (syncFlowControlLocked exampleSynced ?new)) ''tokenbucket'' = None"
    using syncFlowControlLocked_creates_retires_resizes
      [where c = exampleSynced and newObj = ?new and oldSchema = tokenBucket10,
       OF inv d, THEN conjunct2, THEN conjunct1]
    by (auto simp add: cur lims names Load_def)
  have resized:
    "Load (flowcontrol (syncFlowControlLocked exampleSynced ?new)) ''max-inflight''
       = Some \<lparr>ident = 1, parameters = MaxRequestsInflight 20, permits = 3, retired = False\<rparr>"
    using syncFlowControlLocked_creates_retires_resizes
      [where c = exampleSynced and newObj = ?new and keptSchema = maxInflight10
         and resized = maxInflight20,
       OF inv d, THEN conjunct2, THEN conjunct2]
    by (auto simp add: cur lims names confs Load_def)
  from created retired_exempt dropped resized show ?thesis
    by blast
qed

text \<open>
  The three cases of \<open>TestClusterInfo_syncFlowControlLocked\<close>, each a sync of the test
  cluster to the old and then to the new flow control: the three schemas are added; they
  are deleted again; the two limiters are resized, and are the limiters of the first
  sync.
\<close>

lemma syncFlowControlLocked_test_add:
  "map fst (limiters (flowcontrol (syncFlowControlLocked
       (syncFlowControlLocked (exampleCluster None None) [])
       [exempt, maxInflight10, tokenBucket10])))
     = [''exempt'', ''max-inflight'', ''tokenbucket'']"
  by (simp add: syncFlowControlLocked_def Sync_def syncSchema_def createLimiter_def Store_def
        Load_def NewFlowControl_def exampleCluster_def exempt_def maxInflight10_def
        tokenBucket10_def)

lemma syncFlowControlLocked_test_delete:
  "Len (flowcontrol (syncFlowControlLocked
       (syncFlowControlLocked (exampleCluster None None) [exempt, maxInflight10, tokenBucket10])
       [])) = 0"
  by (simp add: syncFlowControlLocked_def Sync_def syncSchema_def createLimiter_def Store_def
        Delete_def retire_def Load_def Len_def NewFlowControl_def exampleCluster_def exempt_def
        maxInflight10_def tokenBucket10_def)

lemma syncFlowControlLocked_test_resize:
  "limiters (flowcontrol (syncFlowControlLocked
       (syncFlowControlLocked (exampleCluster None None) [maxInflight10, tokenBucket10])
       [maxInflight20, tokenBucket20]))
     = [(''max-inflight'', NewFlowControl 0 maxInflight20),
        (''tokenbucket'', NewFlowControl 1 tokenBucket20)]"
  by (simp add: syncFlowControlLocked_def Sync_def syncSchema_def createLimiter_def Store_def
        Resize_def Load_def NewFlowControl_def exampleCluster_def maxInflight10_def
        tokenBucket10_def maxInflight20_def tokenBucket20_def)

end
